theory Spec2Isabelle
  imports Complex_Main "HOL-Library.Word"
begin

unbundle bit_operations_syntax

section \<open>Numeric conventions\<close>

text \<open>
  The grain engine of nodegrainsynth (\<^verbatim>\<open>cpp/src/grain_engine.cpp\<close>, \<^verbatim>\<open>grain_engine.h\<close>,
  \<^verbatim>\<open>grain.h\<close>, \<^verbatim>\<open>lfo.h\<close>, \<^verbatim>\<open>param_smoother.h\<close>) computes with \<^verbatim>\<open>float\<close> and
  \<^verbatim>\<open>double\<close>. Finite floating-point values are modelled as the real numbers they
  denote and the arithmetic on them as exact real arithmetic: rounding is not modelled,
  and \<^verbatim>\<open>M_PI\<close> is read as \<open>pi\<close>. \<^verbatim>\<open>int\<close> and \<^verbatim>\<open>int32_t\<close> values are
  modelled as \<open>int\<close>, the two \<^verbatim>\<open>uint32_t\<close> members as \<open>32 word\<close>. Member names drop
  the trailing underscore of the source.

  The engine clock is the one place where a non-finite value is produced by the code
  itself: \<^verbatim>\<open>init\<close> stores \<^verbatim>\<open>1.0f / sampleRate\<close>, which is \<open>+inf\<close> for a zero sample
  rate. The clock members therefore range over \<open>fval\<close>, the reals extended by the three
  IEEE special values, with the IEEE rules for the operations the engine applies to them.
\<close>

datatype fval = Fin real | PosInf | NegInf | NaN

text \<open>\<^verbatim>\<open>1.0f / x\<close>; the model has a single zero, taken as \<open>+0\<close>.\<close>

definition fval_recip :: "real \<Rightarrow> fval" where
  "fval_recip x = (if x = 0 then PosInf else Fin (1 / x))"

text \<open>\<^verbatim>\<open>n * v\<close> for an \<^verbatim>\<open>int\<close> \<open>n\<close>.\<close>

fun fval_scale :: "int \<Rightarrow> fval \<Rightarrow> fval" where
  "fval_scale n (Fin x) = Fin (real_of_int n * x)"
| "fval_scale n PosInf = (if 0 < n then PosInf else if n < 0 then NegInf else NaN)"
| "fval_scale n NegInf = (if 0 < n then NegInf else if n < 0 then PosInf else NaN)"
| "fval_scale n NaN = NaN"

fun fval_add :: "fval \<Rightarrow> fval \<Rightarrow> fval" where
  "fval_add (Fin x) (Fin y) = Fin (x + y)"
| "fval_add NaN v = NaN"
| "fval_add v NaN = NaN"
| "fval_add PosInf NegInf = NaN"
| "fval_add NegInf PosInf = NaN"
| "fval_add PosInf v = PosInf"
| "fval_add v PosInf = PosInf"
| "fval_add NegInf v = NegInf"
| "fval_add v NegInf = NegInf"

fun fval_less :: "fval \<Rightarrow> fval \<Rightarrow> bool" where
  "fval_less (Fin x) (Fin y) = (x < y)"
| "fval_less NaN v = False"
| "fval_less v NaN = False"
| "fval_less v NegInf = False"
| "fval_less PosInf v = False"
| "fval_less NegInf v = True"
| "fval_less v PosInf = True"

text \<open>
  What can keep a call from producing a value in the model: the C++ has undefined
  behaviour (a float-to-int conversion out of range, a read outside the sample buffer, a
  negative \<^verbatim>\<open>memset\<close> size), or a non-finite clock value reaches a computation that
  the real-valued model does not cover. A call that does not return at all is the value
  \<open>None\<close> of the scheduling loop and of \<^verbatim>\<open>process\<close> below.
\<close>

datatype fault = UndefinedBehaviour | NonFinite

text \<open>\<^verbatim>\<open>static_cast<int>(x)\<close> truncates towards zero and is undefined out of range.\<close>

definition trunc_toward_zero :: "real \<Rightarrow> int" where
  "trunc_toward_zero x = (if 0 \<le> x then \<lfloor>x\<rfloor> else \<lceil>x\<rceil>)"

definition INT32_MAX :: int where
  "INT32_MAX = 2147483647"

definition float_to_int :: "real \<Rightarrow> fault + int" where
  "float_to_int x =
     (if - INT32_MAX - 1 \<le> trunc_toward_zero x \<and> trunc_toward_zero x \<le> INT32_MAX
      then Inr (trunc_toward_zero x) else Inl UndefinedBehaviour)"

text \<open>\<^verbatim>\<open>static_cast<float>(d)\<close> of a clock value used in real-valued arithmetic.\<close>

fun finite_value :: "fval \<Rightarrow> fault + real" where
  "finite_value (Fin x) = Inr x"
| "finite_value v = Inl NonFinite"

section \<open>PRNG (xorshift32)\<close>

text \<open>\<^verbatim>\<open>randomUint\<close>: the new state is also the value returned.\<close>

definition randomUint :: "32 word \<Rightarrow> 32 word" where
  "randomUint s0 =
     (let s1 = s0 XOR push_bit 13 s0;
          s2 = s1 XOR drop_bit 17 s1;
          s3 = s2 XOR push_bit 5 s2
      in s3)"

text \<open>\<^verbatim>\<open>randomFloat\<close>: the value and the new state.\<close>

definition randomFloat :: "32 word \<Rightarrow> real \<times> 32 word" where
  "randomFloat s = (real (unat (randomUint s)) / 4294967296, randomUint s)"

section \<open>Parameter smoother\<close>

record ParamSmoother =
  sm_sampleRate :: real
  coeff :: real
  current :: real
  target :: real

definition ParamSmoother_default :: ParamSmoother where
  "ParamSmoother_default = \<lparr>sm_sampleRate = 48000, coeff = 1, current = 0, target = 0\<rparr>"

definition setSmoothTime :: "ParamSmoother \<Rightarrow> real \<Rightarrow> ParamSmoother" where
  "setSmoothTime s ms =
     (if 0 < sm_sampleRate s \<and> 0 < ms
      then s\<lparr>coeff := 1 - exp (- 1 / (sm_sampleRate s * ms * 0.001))\<rparr>
      else s\<lparr>coeff := 1\<rparr>)"

definition smoother_init :: "ParamSmoother \<Rightarrow> real \<Rightarrow> real \<Rightarrow> ParamSmoother" where
  "smoother_init s sampleRate smoothTimeMs = setSmoothTime (s\<lparr>sm_sampleRate := sampleRate\<rparr>) smoothTimeMs"

definition setImmediate :: "ParamSmoother \<Rightarrow> real \<Rightarrow> ParamSmoother" where
  "setImmediate s v = s\<lparr>current := v, target := v\<rparr>"

definition setTarget :: "ParamSmoother \<Rightarrow> real \<Rightarrow> ParamSmoother" where
  "setTarget s v = s\<lparr>target := v\<rparr>"

text \<open>\<^verbatim>\<open>process\<close> of the smoother; the value it returns is \<open>current\<close> of the result.\<close>

definition smoother_process :: "ParamSmoother \<Rightarrow> ParamSmoother" where
  "smoother_process s = s\<lparr>current := current s + (target s - current s) * coeff s\<rparr>"

section \<open>LFO\<close>

text \<open>\<^verbatim>\<open>std::fmod(x, 1.0f)\<close>: the remainder has the sign of \<open>x\<close>.\<close>

definition fmod1 :: "real \<Rightarrow> real" where
  "fmod1 x = x - real_of_int (trunc_toward_zero x)"

text \<open>
  \<^verbatim>\<open>shape_\<close> is an \<^verbatim>\<open>enum class LfoShape : int\<close> set by a cast from the \<^verbatim>\<open>int\<close>
  parameter \<^verbatim>\<open>lfoShape\<close>: Sine = 0, Triangle = 1, Square = 2, Sawtooth = 3, and any
  other value takes the \<^verbatim>\<open>default\<close> branch.
\<close>

record LFO =
  rate :: real
  shape :: int

definition LFO_default :: LFO where
  "LFO_default = \<lparr>rate = 1, shape = 0\<rparr>"

definition setRate :: "LFO \<Rightarrow> real \<Rightarrow> LFO" where
  "setRate l hz = l\<lparr>rate := hz\<rparr>"

definition setShape :: "LFO \<Rightarrow> int \<Rightarrow> LFO" where
  "setShape l sh = l\<lparr>shape := sh\<rparr>"

definition getValue :: "LFO \<Rightarrow> real \<Rightarrow> real" where
  "getValue l timeSec =
     (let phase0 = fmod1 (timeSec * rate l);
          phase = (if phase0 < 0 then phase0 + 1 else phase0)
      in if shape l = 0 then sin (phase * 2 * pi)
         else if shape l = 2 then (if phase < 0.5 then 1 else - 1)
         else if shape l = 3 then phase * 2 - 1
         else if shape l = 1 then \<bar>phase * 4 - 2\<bar> - 1
         else 0)"

section \<open>Parameters, grains and the engine state\<close>

text \<open>
  \<^verbatim>\<open>EngineParams\<close>, without the filter and effect members that the C++ engine never
  reads.
\<close>

record EngineParams =
  grainSize :: real
  density :: real
  spread :: real
  position :: real
  grainReversalChance :: real
  pan :: real
  panSpread :: real
  pitch :: real
  detune :: real
  fmFreq :: real
  fmAmount :: real
  attack :: real
  release :: real
  envelopeCurve :: int
  lfoRate :: real
  lfoAmount :: real
  lfoShape :: int
  lfoTargetMask :: "32 word"
  volume :: real

definition EngineParams_default :: EngineParams where
  "EngineParams_default =
     \<lparr>grainSize = 0.3, density = 0.15, spread = 0, position = 0, grainReversalChance = 0,
      pan = 0, panSpread = 0, pitch = 0, detune = 0, fmFreq = 0, fmAmount = 0,
      attack = 0.5, release = 0.5, envelopeCurve = 0, lfoRate = 1, lfoAmount = 0,
      lfoShape = 0, lfoTargetMask = 0, volume = 0.8\<rparr>"

text \<open>The bits of \<^verbatim>\<open>enum LfoTarget\<close> that the engine tests.\<close>

definition LFO_GRAIN_SIZE :: "32 word" where "LFO_GRAIN_SIZE = push_bit 0 1"
definition LFO_DENSITY :: "32 word" where "LFO_DENSITY = push_bit 1 1"
definition LFO_SPREAD :: "32 word" where "LFO_SPREAD = push_bit 2 1"
definition LFO_POSITION :: "32 word" where "LFO_POSITION = push_bit 3 1"
definition LFO_PITCH :: "32 word" where "LFO_PITCH = push_bit 4 1"
definition LFO_FM_FREQ :: "32 word" where "LFO_FM_FREQ = push_bit 5 1"
definition LFO_FM_AMOUNT :: "32 word" where "LFO_FM_AMOUNT = push_bit 6 1"
definition LFO_ATTACK :: "32 word" where "LFO_ATTACK = push_bit 9 1"
definition LFO_RELEASE :: "32 word" where "LFO_RELEASE = push_bit 10 1"
definition LFO_PAN :: "32 word" where "LFO_PAN = push_bit 15 1"
definition LFO_PAN_SPREAD :: "32 word" where "LFO_PAN_SPREAD = push_bit 16 1"

text \<open>The members of \<^verbatim>\<open>struct ModScales\<close> that the engine uses.\<close>

definition ModScales_grainSize :: real where "ModScales_grainSize = 0.2"
definition ModScales_density :: real where "ModScales_density = 0.1"
definition ModScales_spread :: real where "ModScales_spread = 1.0"
definition ModScales_position :: real where "ModScales_position = 0.5"
definition ModScales_pitch :: real where "ModScales_pitch = 24.0"
definition ModScales_fmFreq :: real where "ModScales_fmFreq = 200.0"
definition ModScales_fmAmount :: real where "ModScales_fmAmount = 50.0"
definition ModScales_attack :: real where "ModScales_attack = 0.5"
definition ModScales_release :: real where "ModScales_release = 0.5"
definition ModScales_pan :: real where "ModScales_pan = 1.0"
definition ModScales_panSpread :: real where "ModScales_panSpread = 1.0"

text \<open>\<^verbatim>\<open>struct Grain\<close> (\<^verbatim>\<open>grain.h\<close>); \<open>g_position\<close>, \<open>g_duration\<close> and \<open>g_pan\<close> are its
  members \<^verbatim>\<open>position\<close>, \<^verbatim>\<open>duration\<close> and \<^verbatim>\<open>pan\<close>.\<close>

record Grain =
  active :: bool
  g_position :: real
  playbackRate :: real
  samplesRemaining :: int
  totalSamples :: int
  envPhase :: real
  envIncrement :: real
  attackRatio :: real
  releaseRatio :: real
  exponentialEnv :: bool
  panL :: real
  panR :: real
  normPos :: real
  g_duration :: real
  g_pan :: real

definition MAX_GRAINS :: nat where
  "MAX_GRAINS = 128"

text \<open>A grain slot after the constructor's \<^verbatim>\<open>memset\<close>.\<close>

definition Grain_zero :: Grain where
  "Grain_zero =
     \<lparr>active = False, g_position = 0, playbackRate = 0, samplesRemaining = 0,
      totalSamples = 0, envPhase = 0, envIncrement = 0, attackRatio = 0, releaseRatio = 0,
      exponentialEnv = False, panL = 0, panR = 0, normPos = 0, g_duration = 0, g_pan = 0\<rparr>"

record GrainEvent =
  ev_normPos :: real
  ev_duration :: real
  ev_pan :: real

definition MAX_GRAIN_EVENTS :: int where
  "MAX_GRAIN_EVENTS = 64"

definition GrainEvent_zero :: GrainEvent where
  "GrainEvent_zero = \<lparr>ev_normPos = 0, ev_duration = 0, ev_pan = 0\<rparr>"

text \<open>
  The state of \<^verbatim>\<open>class GrainEngine\<close>. \<open>sampleBuffer\<close> is \<open>None\<close> for the null pointer;
  \<open>grains\<close> is the array \<^verbatim>\<open>grains_[MAX_GRAINS]\<close> and \<open>grainEvents\<close> the array
  \<^verbatim>\<open>grainEvents_[MAX_GRAIN_EVENTS]\<close>. The two output arrays of the object are only
  handed out as pointers; \<^verbatim>\<open>process\<close> writes to its arguments, which the model returns.
\<close>

record GrainEngine =
  sampleRate :: real
  invSampleRate :: fval
  isPlaying :: bool
  currentTime :: fval
  nextGrainTime :: fval
  sampleBuffer :: "real list option"
  sampleBufferLength :: int
  sampleBufferChannels :: int
  grains :: "Grain list"
  lfo :: LFO
  currentLfoValue :: real
  params :: EngineParams
  pitchSmoother :: ParamSmoother
  positionSmoother :: ParamSmoother
  grainSizeSmoother :: ParamSmoother
  panSmoother :: ParamSmoother
  volumeSmoother :: ParamSmoother
  isFrozen :: bool
  frozenPosition :: real
  isDrifting :: bool
  driftPosition :: real
  driftBasePosition :: real
  driftSpeed :: real
  driftReturnTendency :: real
  grainEvents :: "GrainEvent list"
  grainEventCount :: int
  rngState :: "32 word"

text \<open>The member initialisers of the header followed by the constructor.\<close>

definition GrainEngine_new :: GrainEngine where
  "GrainEngine_new =
     \<lparr>sampleRate = 48000, invSampleRate = Fin (1 / 48000), isPlaying = False,
      currentTime = Fin 0, nextGrainTime = Fin 0,
      sampleBuffer = None, sampleBufferLength = 0, sampleBufferChannels = 1,
      grains = replicate MAX_GRAINS Grain_zero,
      lfo = LFO_default, currentLfoValue = 0, params = EngineParams_default,
      pitchSmoother = ParamSmoother_default, positionSmoother = ParamSmoother_default,
      grainSizeSmoother = ParamSmoother_default, panSmoother = ParamSmoother_default,
      volumeSmoother = ParamSmoother_default,
      isFrozen = False, frozenPosition = 0, isDrifting = False, driftPosition = 0.5,
      driftBasePosition = 0.5, driftSpeed = 0.5, driftReturnTendency = 0.3,
      grainEvents = replicate (nat MAX_GRAIN_EVENTS) GrainEvent_zero, grainEventCount = 0,
      rngState = 12345\<rparr>"

section \<open>Modulation and envelope\<close>

definition getModulated :: "GrainEngine \<Rightarrow> real \<Rightarrow> 32 word \<Rightarrow> real \<Rightarrow> real \<Rightarrow> real \<Rightarrow> real" where
  "getModulated e base targetBit scale minVal maxVal =
     (if lfoTargetMask (params e) AND targetBit = 0 then base
      else let val = base + (currentLfoValue e * lfoAmount (params e) * scale)
           in max minVal (min maxVal val))"

definition computeEnvelope :: "Grain \<Rightarrow> real" where
  "computeEnvelope grain =
     (let phase = envPhase grain;
          attackEnd = attackRatio grain;
          releaseStart = 1 - releaseRatio grain;
          fadeRatio = 0.01;
          epsilon = 0.000001
      in if phase < fadeRatio then phase / fadeRatio * 0.001
         else if phase < attackEnd then
           (let attackDuration = attackEnd - fadeRatio
            in if attackDuration < epsilon then 0.001
               else let t = (phase - fadeRatio) / attackDuration
                    in if exponentialEnv grain then 0.001 + t * t * (1 - 0.001)
                       else 0.001 + t * (1 - 0.001))
         else if phase < releaseStart then 1
         else if releaseRatio grain < epsilon then 0
         else let t = min 1 ((phase - releaseStart) / releaseRatio grain)
              in if exponentialEnv grain then (1 - t) * (1 - t)
                 else 1 - t)"

section \<open>Per-grain processing\<close>

text \<open>\<^verbatim>\<open>sampleBuffer_[i]\<close>: undefined through the null pointer and outside the array.\<close>

definition readSample :: "real list option \<Rightarrow> int \<Rightarrow> fault + real" where
  "readSample buf i =
     (case buf of
        None \<Rightarrow> Inl UndefinedBehaviour
      | Some xs \<Rightarrow> if 0 \<le> i \<and> i < int (length xs) then Inr (xs ! nat i)
                  else Inl UndefinedBehaviour)"

text \<open>The sample read with linear interpolation at the head of \<^verbatim>\<open>processGrain\<close>.\<close>

definition interpolatedSample :: "GrainEngine \<Rightarrow> real \<Rightarrow> fault + real" where
  "interpolatedSample e pos =
     (if 0 \<le> pos \<and> pos < real_of_int (sampleBufferLength e - 1) then
        (let idx = trunc_toward_zero pos; frac = pos - real_of_int idx
         in case readSample (sampleBuffer e) idx of
              Inl f \<Rightarrow> Inl f
            | Inr a \<Rightarrow> (case readSample (sampleBuffer e) (idx + 1) of
                          Inl f \<Rightarrow> Inl f
                        | Inr b \<Rightarrow> Inr (a * (1 - frac) + b * frac)))
      else if 0 \<le> pos \<and> pos < real_of_int (sampleBufferLength e) then
        readSample (sampleBuffer e) (trunc_toward_zero pos)
      else Inr 0)"

text \<open>\<^verbatim>\<open>processGrain\<close>: the grain after the sample, and the stereo pair \<open>(outL, outR)\<close>.\<close>

definition processGrain :: "GrainEngine \<Rightarrow> Grain \<Rightarrow> fault + (Grain \<times> real \<times> real)" where
  "processGrain e grain =
     (case interpolatedSample e (g_position grain) of
        Inl f \<Rightarrow> Inl f
      | Inr sample0 \<Rightarrow>
          (let env = computeEnvelope grain;
               sample = sample0 * env;
               outL = sample * panL grain;
               outR = sample * panR grain;
               g1 = grain\<lparr>g_position := g_position grain + playbackRate grain,
                           envPhase := envPhase grain + envIncrement grain,
                           samplesRemaining := samplesRemaining grain - 1\<rparr>;
               g2 = (if samplesRemaining g1 \<le> 0 \<or> g_position g1 < 0 \<or>
                        real_of_int (sampleBufferLength e) \<le> g_position g1
                     then g1\<lparr>active := False\<rparr> else g1)
           in Inr (g2, outL, outR)))"

section \<open>Grain spawn\<close>

text \<open>
  The slot scan at the head of \<^verbatim>\<open>spawnGrain\<close>, over the slots from index \<open>i\<close> on:
  the result is the pair \<open>(slot, oldestSlot)\<close> at the end of the \<^verbatim>\<open>for\<close> loop. The scan
  stops at the first inactive slot.
\<close>

fun scanSlots :: "Grain list \<Rightarrow> int \<Rightarrow> int \<Rightarrow> int \<Rightarrow> int \<times> int" where
  "scanSlots [] i oldestSlot leastRemaining = (- 1, oldestSlot)"
| "scanSlots (g # gs) i oldestSlot leastRemaining =
     (if \<not> active g then (i, oldestSlot)
      else if samplesRemaining g < leastRemaining
           then scanSlots gs (i + 1) i (samplesRemaining g)
           else scanSlots gs (i + 1) oldestSlot leastRemaining)"

text \<open>The slot that \<^verbatim>\<open>spawnGrain\<close> writes to; negative when it returns early.\<close>

definition chooseSlot :: "Grain list \<Rightarrow> int" where
  "chooseSlot gs =
     (let (slot, oldestSlot) = scanSlots gs 0 (- 1) INT32_MAX
      in if slot < 0 then oldestSlot else slot)"

text \<open>The grain duration in samples (\<^verbatim>\<open>totalSamples\<close>).\<close>

definition grainTotalSamples :: "real \<Rightarrow> real \<Rightarrow> fault + int" where
  "grainTotalSamples grainDuration sr =
     (case float_to_int (grainDuration * sr) of
        Inl f \<Rightarrow> Inl f
      | Inr n \<Rightarrow> Inr (if n < 1 then 1 else n))"

text \<open>\<^verbatim>\<open>fmMod\<close>.\<close>

definition fmModulation :: "GrainEngine \<Rightarrow> real \<Rightarrow> real \<Rightarrow> fault + real" where
  "fmModulation e fmFreq' fmAmount' =
     (if 0 < fmAmount' then
        (case finite_value (currentTime e) of
           Inl f \<Rightarrow> Inl f
         | Inr t \<Rightarrow> Inr (sin (t * fmFreq') * (fmAmount' * 0.01)))
      else Inr 0)"

text \<open>\<^verbatim>\<open>finalRate\<close>, from the signed \<^verbatim>\<open>rate\<close>, \<^verbatim>\<open>fmMod\<close> and the reversal flag.\<close>

definition finalPlaybackRate :: "real \<Rightarrow> real \<Rightarrow> bool \<Rightarrow> real" where
  "finalPlaybackRate rate' fmMod reversed =
     (let finalRate = max 0.1 \<bar>rate' + fmMod\<bar>
      in if reversed then - finalRate else finalRate)"

text \<open>
  The pair \<open>(panL, panR)\<close> of the equal-power pan law; \<^verbatim>\<open>static_cast<float>(M_PI)\<close> is
  read as \<open>pi\<close>.
\<close>

definition equalPowerPan :: "real \<Rightarrow> real \<times> real" where
  "equalPowerPan finalPan =
     (let panAngle = (finalPan + 1) * 0.25 * pi
      in (cos panAngle, sin panAngle))"

text \<open>
  The grain that \<^verbatim>\<open>spawnGrain\<close> writes into the chosen slot, given the duration in
  samples and the FM offset, together with the PRNG state after its four draws (detune,
  reversal, start offset, pan).
\<close>

definition newGrain :: "GrainEngine \<Rightarrow> int \<Rightarrow> real \<Rightarrow> Grain \<times> 32 word" where
  "newGrain e totalSamples' fmMod =
     (let grainSize' = getModulated e (current (grainSizeSmoother e)) LFO_GRAIN_SIZE
                         ModScales_grainSize 0.01 0.5;
          spread' = getModulated e (spread (params e)) LFO_SPREAD ModScales_spread 0 2;
          pitch' = getModulated e (current (pitchSmoother e)) LFO_PITCH ModScales_pitch (- 24) 24;
          attack' = getModulated e (attack (params e)) LFO_ATTACK ModScales_attack 0.01 0.9;
          release' = getModulated e (release (params e)) LFO_RELEASE ModScales_release 0.01 0.9;
          panCenter = getModulated e (current (panSmoother e)) LFO_PAN ModScales_pan (- 1) 1;
          panSpread' = getModulated e (panSpread (params e)) LFO_PAN_SPREAD
                         ModScales_panSpread 0 1;
          basePosition = (if isFrozen e then frozenPosition e
                          else if isDrifting e then driftPosition e
                          else current (positionSmoother e));
          position' = getModulated e basePosition LFO_POSITION ModScales_position 0 1;
          grainDuration = max 0.01 grainSize';
          (r1, rng1) = randomFloat (rngState e);
          cents = pitch' * 100 + (r1 * detune (params e) * 2 - detune (params e));
          rate0 = 2 powr (cents / 1200);
          (r2, rng2) = randomFloat rng1;
          reversed = (r2 < grainReversalChance (params e));
          rate' = (if reversed then - rate0 else rate0);
          finalRate = finalPlaybackRate rate' fmMod reversed;
          len = real_of_int (sampleBufferLength e);
          bufferDurationSec = fval_scale (sampleBufferLength e) (invSampleRate e);
          centerSample = position' * len;
          (r3, rng3) = randomFloat rng2;
          randomOffset = (r3 * 2 - 1) * spread' * len * 0.5;
          startSample0 = centerSample + randomOffset;
          maxStart = len - grainDuration * sampleRate e * \<bar>finalRate\<bar>;
          startSample1 = max 0 (min startSample0 (max 0 maxStart));
          startSample = (if reversed
                         then min (startSample1 + grainDuration * sampleRate e)
                                (real_of_int (sampleBufferLength e - 1))
                         else startSample1);
          (r4, rng4) = randomFloat rng3;
          randomPan = (r4 * 2 - 1) * panSpread';
          finalPan = max (- 1) (min 1 (panCenter + randomPan));
          (panL', panR') = equalPowerPan finalPan
      in (\<lparr>active = True, g_position = startSample, playbackRate = finalRate,
           samplesRemaining = totalSamples', totalSamples = totalSamples',
           envPhase = 0, envIncrement = 1 / real_of_int totalSamples',
           attackRatio = attack', releaseRatio = release',
           exponentialEnv = (envelopeCurve (params e) = 1),
           panL = panL', panR = panR',
           normPos = (if fval_less (Fin 0) bufferDurationSec then startSample / len else 0),
           g_duration = grainDuration, g_pan = finalPan\<rparr>, rng4))"

text \<open>The visualisation event appended at the end of \<^verbatim>\<open>spawnGrain\<close>.\<close>

definition emitGrainEvent :: "GrainEngine \<Rightarrow> Grain \<Rightarrow> fault + GrainEngine" where
  "emitGrainEvent e grain =
     (if grainEventCount e < MAX_GRAIN_EVENTS then
        (if 0 \<le> grainEventCount e then
           Inr (e\<lparr>grainEvents := (grainEvents e)[nat (grainEventCount e) :=
                      \<lparr>ev_normPos = normPos grain, ev_duration = g_duration grain,
                       ev_pan = g_pan grain\<rparr>],
                   grainEventCount := grainEventCount e + 1\<rparr>)
         else Inl UndefinedBehaviour)
      else Inr e)"

definition spawnGrain :: "GrainEngine \<Rightarrow> fault + GrainEngine" where
  "spawnGrain e =
     (let slot = chooseSlot (grains e)
      in if slot < 0 then Inr e
         else
           (let grainSize' = getModulated e (current (grainSizeSmoother e)) LFO_GRAIN_SIZE
                               ModScales_grainSize 0.01 0.5;
                fmFreq' = getModulated e (fmFreq (params e)) LFO_FM_FREQ ModScales_fmFreq 0 1000;
                fmAmount' = getModulated e (fmAmount (params e)) LFO_FM_AMOUNT
                              ModScales_fmAmount 0 100;
                grainDuration = max 0.01 grainSize'
            in case grainTotalSamples grainDuration (sampleRate e) of
                 Inl f \<Rightarrow> Inl f
               | Inr totalSamples' \<Rightarrow>
                   (case fmModulation e fmFreq' fmAmount' of
                      Inl f \<Rightarrow> Inl f
                    | Inr fmMod \<Rightarrow>
                        (let (grain, rng') = newGrain e totalSamples' fmMod
                         in emitGrainEvent
                              (e\<lparr>grains := (grains e)[nat slot := grain], rngState := rng'\<rparr>)
                              grain))))"

section \<open>Block processing\<close>

definition updateDrift :: "GrainEngine \<Rightarrow> real \<Rightarrow> GrainEngine" where
  "updateDrift e deltaTimeSec =
     (let stepSize = driftSpeed e * deltaTimeSec * 0.5;
          (r, rng') = randomFloat (rngState e);
          randomStep = (r - 0.5) * 2 * stepSize;
          distanceFromBase = driftBasePosition e - driftPosition e;
          returnForce = distanceFromBase * driftReturnTendency e * deltaTimeSec * 0.5
      in e\<lparr>driftPosition := max 0 (min 1 (driftPosition e + (randomStep + returnForce))),
           rngState := rng'\<rparr>)"

text \<open>One iteration of the smoother loop of \<^verbatim>\<open>process\<close>.\<close>

definition advanceSmoothers :: "GrainEngine \<Rightarrow> GrainEngine" where
  "advanceSmoothers e =
     e\<lparr>pitchSmoother := smoother_process (pitchSmoother e),
       positionSmoother := smoother_process (positionSmoother e),
       grainSizeSmoother := smoother_process (grainSizeSmoother e),
       panSmoother := smoother_process (panSmoother e),
       volumeSmoother := smoother_process (volumeSmoother e)\<rparr>"

text \<open>The body of the scheduling loop after a successful spawn.\<close>

definition advanceNextGrainTime :: "GrainEngine \<Rightarrow> GrainEngine" where
  "advanceNextGrainTime e =
     (let density' = getModulated e (density (params e)) LFO_DENSITY ModScales_density 0.005 10
      in e\<lparr>nextGrainTime := fval_add (nextGrainTime e) (Fin density')\<rparr>)"

text \<open>
  The loop \<^verbatim>\<open>while (nextGrainTime_ < blockEndTime)\<close>. \<open>None\<close>: the loop does not end;
  \<open>Some (Inl f)\<close>: a spawn ran into the fault \<open>f\<close>; \<open>Some (Inr e)\<close>: the state at loop exit.
\<close>

partial_function (option) scheduleGrains :: "GrainEngine \<Rightarrow> fval \<Rightarrow> (fault + GrainEngine) option" where
  "scheduleGrains e blockEndTime =
     (if fval_less (nextGrainTime e) blockEndTime then
        (if isl (spawnGrain e) then Some (Inl (projl (spawnGrain e)))
         else scheduleGrains (advanceNextGrainTime (projr (spawnGrain e))) blockEndTime)
      else Some (Inr e))"

text \<open>
  The inner loop over the pool for one output sample: the pool after it and the sums
  \<open>(sumL, sumR)\<close>.
\<close>

fun mixGrains :: "GrainEngine \<Rightarrow> Grain list \<Rightarrow> real \<Rightarrow> real \<Rightarrow> fault + (Grain list \<times> real \<times> real)" where
  "mixGrains e [] sumL sumR = Inr ([], sumL, sumR)"
| "mixGrains e (g # gs) sumL sumR =
     (if \<not> active g then
        (case mixGrains e gs sumL sumR of
           Inl f \<Rightarrow> Inl f
         | Inr (gs', l, r) \<Rightarrow> Inr (g # gs', l, r))
      else
        (case processGrain e g of
           Inl f \<Rightarrow> Inl f
         | Inr (g', gL, gR) \<Rightarrow>
             (case mixGrains e gs (sumL + gL) (sumR + gR) of
                Inl f \<Rightarrow> Inl f
              | Inr (gs', l, r) \<Rightarrow> Inr (g' # gs', l, r))))"

text \<open>The outer loop over the frames of the block: the engine and the two channels.\<close>

fun mixFrames :: "nat \<Rightarrow> GrainEngine \<Rightarrow> fault + (GrainEngine \<times> real list \<times> real list)" where
  "mixFrames 0 e = Inr (e, [], [])"
| "mixFrames (Suc n) e =
     (case mixGrains e (grains e) 0 0 of
        Inl f \<Rightarrow> Inl f
      | Inr (gs', l, r) \<Rightarrow>
          (case mixFrames n (e\<lparr>grains := gs'\<rparr>) of
             Inl f \<Rightarrow> Inl f
           | Inr (e', ls, rs) \<Rightarrow> Inr (e', l # ls, r # rs)))"

text \<open>The part of \<^verbatim>\<open>process\<close> between the early return and the scheduling loop.\<close>

definition prepareBlock :: "GrainEngine \<Rightarrow> int \<Rightarrow> fault + GrainEngine" where
  "prepareBlock e numFrames =
     (case finite_value (currentTime e) of
        Inl f \<Rightarrow> Inl f
      | Inr t \<Rightarrow>
          (let e1 = e\<lparr>currentLfoValue := getValue (lfo e) t\<rparr>;
               e2 = (advanceSmoothers ^^ nat numFrames) e1
           in if isDrifting e2 \<and> \<not> isFrozen e2 then
                (case finite_value (fval_scale numFrames (invSampleRate e2)) of
                   Inl f \<Rightarrow> Inl f
                 | Inr dt \<Rightarrow> Inr (updateDrift e2 dt))
              else Inr e2))"

text \<open>
  \<^verbatim>\<open>process(outputL, outputR, numFrames)\<close>: the engine after the call and the contents of
  the two output arrays. \<open>None\<close>: the call does not return.
\<close>

definition process :: "GrainEngine \<Rightarrow> int \<Rightarrow> (fault + (GrainEngine \<times> real list \<times> real list)) option" where
  "process e numFrames =
     (if numFrames < 0 then Some (Inl UndefinedBehaviour)
      else if \<not> isPlaying e \<or> sampleBuffer e = None \<or> sampleBufferLength e = 0 then
        Some (Inr (e\<lparr>currentTime := fval_add (currentTime e)
                                       (fval_scale numFrames (invSampleRate e))\<rparr>,
                   replicate (nat numFrames) 0, replicate (nat numFrames) 0))
      else
        (case prepareBlock e numFrames of
           Inl f \<Rightarrow> Some (Inl f)
         | Inr e3 \<Rightarrow>
             (let blockEndTime = fval_add (currentTime e3)
                                   (fval_scale numFrames (invSampleRate e3))
              in case scheduleGrains e3 blockEndTime of
                   None \<Rightarrow> None
                 | Some (Inl f) \<Rightarrow> Some (Inl f)
                 | Some (Inr e4) \<Rightarrow>
                     (case mixFrames (nat numFrames) e4 of
                        Inl f \<Rightarrow> Some (Inl f)
                      | Inr (e5, outL, outR) \<Rightarrow>
                          Some (Inr (e5\<lparr>currentTime := blockEndTime\<rparr>, outL, outR))))))"

section \<open>Control interface\<close>

definition init :: "GrainEngine \<Rightarrow> real \<Rightarrow> GrainEngine" where
  "init e sr =
     e\<lparr>sampleRate := sr,
       invSampleRate := fval_recip sr,
       currentTime := Fin 0,
       nextGrainTime := Fin 0,
       grains := map (\<lambda>g. g\<lparr>active := False\<rparr>) (grains e),
       grainEventCount := 0,
       pitchSmoother := setImmediate (smoother_init (pitchSmoother e) sr 10) 0,
       positionSmoother := setImmediate (smoother_init (positionSmoother e) sr 10) 0,
       grainSizeSmoother := setImmediate (smoother_init (grainSizeSmoother e) sr 10) 0.1,
       panSmoother := setImmediate (smoother_init (panSmoother e) sr 10) 0,
       volumeSmoother := setImmediate (smoother_init (volumeSmoother e) sr 10) 0.8\<rparr>"

text \<open>
  \<^verbatim>\<open>allocateSampleBuffer\<close> returns the new array for the caller to fill; the model takes
  the filled contents as the argument.
\<close>

definition allocateSampleBuffer :: "GrainEngine \<Rightarrow> real list \<Rightarrow> GrainEngine" where
  "allocateSampleBuffer e samples =
     e\<lparr>sampleBuffer := Some samples, sampleBufferLength := int (length samples)\<rparr>"

definition commitSampleBuffer :: "GrainEngine \<Rightarrow> int \<Rightarrow> int \<Rightarrow> GrainEngine" where
  "commitSampleBuffer e channels lengthInSamples =
     e\<lparr>sampleBufferChannels := channels, sampleBufferLength := lengthInSamples\<rparr>"

definition start :: "GrainEngine \<Rightarrow> GrainEngine" where
  "start e = (if isPlaying e then e else e\<lparr>isPlaying := True, nextGrainTime := currentTime e\<rparr>)"

definition stop :: "GrainEngine \<Rightarrow> GrainEngine" where
  "stop e = e\<lparr>isPlaying := False, grains := map (\<lambda>g. g\<lparr>active := False\<rparr>) (grains e)\<rparr>"

definition updateParams :: "GrainEngine \<Rightarrow> EngineParams \<Rightarrow> GrainEngine" where
  "updateParams e p =
     e\<lparr>params := p,
       lfo := setShape (setRate (lfo e) (lfoRate p)) (lfoShape p),
       pitchSmoother := setTarget (pitchSmoother e) (pitch p),
       positionSmoother := setTarget (positionSmoother e) (position p),
       grainSizeSmoother := setTarget (grainSizeSmoother e) (grainSize p),
       panSmoother := setTarget (panSmoother e) (pan p),
       volumeSmoother := setTarget (volumeSmoother e) (volume p)\<rparr>"

definition setFrozen :: "GrainEngine \<Rightarrow> bool \<Rightarrow> real \<Rightarrow> GrainEngine" where
  "setFrozen e frozen pos =
     (if frozen then e\<lparr>isFrozen := frozen, frozenPosition := pos\<rparr> else e\<lparr>isFrozen := frozen\<rparr>)"

definition setDrift :: "GrainEngine \<Rightarrow> bool \<Rightarrow> real \<Rightarrow> real \<Rightarrow> real \<Rightarrow> GrainEngine" where
  "setDrift e enabled basePosition speed returnTendency =
     (if enabled
      then e\<lparr>isDrifting := enabled, driftBasePosition := basePosition,
             driftPosition := basePosition, driftSpeed := speed,
             driftReturnTendency := returnTendency\<rparr>
      else e\<lparr>isDrifting := enabled\<rparr>)"

definition clearGrainEvents :: "GrainEngine \<Rightarrow> GrainEngine" where
  "clearGrainEvents e = e\<lparr>grainEventCount := 0\<rparr>"

section \<open>Fixtures\<close>

text \<open>
  A grain with the given attack ratio, release ratio, envelope shape and envelope phase;
  the other members are as the constructor leaves them.
\<close>

definition envGrain :: "real \<Rightarrow> real \<Rightarrow> bool \<Rightarrow> real \<Rightarrow> Grain" where
  "envGrain a r expo phase =
     Grain_zero\<lparr>active := True, envPhase := phase, attackRatio := a, releaseRatio := r,
                exponentialEnv := expo\<rparr>"




text \<open>
  The default parameters with a grain size equal to the smoother's initial value and a
  density of zero; no LFO target is selected.
\<close>

definition densityZeroParams :: EngineParams where
  "densityZeroParams = EngineParams_default\<lparr>grainSize := 0.1, density := 0\<rparr>"

text \<open>
  An engine initialised at 48 kHz that was given these parameters and a one-sample buffer,
  and started.
\<close>

definition densityZeroEngine :: GrainEngine where
  "densityZeroEngine =
     start (allocateSampleBuffer (updateParams (init GrainEngine_new 48000) densityZeroParams) [0])"


section \<open>The parameter smoother converges\<close>

lemma smoother_process_keeps [simp]:
  "target (smoother_process s) = target s"
  "coeff (smoother_process s) = coeff s"
  "sm_sampleRate (smoother_process s) = sm_sampleRate s"
  by (simp_all add: smoother_process_def)

lemma smoother_funpow_keeps [simp]:
  "target ((smoother_process ^^ N) s) = target s"
  "coeff ((smoother_process ^^ N) s) = coeff s"
  by (induction N) simp_all






section \<open>Envelope\<close>

lemma env_at_zero: "computeEnvelope (g\<lparr>envPhase := 0\<rparr>) = 0"
  by (simp add: computeEnvelope_def)

lemma env_at_fade:
  assumes "0.01 < attackRatio g"
  shows "computeEnvelope (g\<lparr>envPhase := 0.01\<rparr>) = 0.001"
  using assms by (simp add: computeEnvelope_def Let_def)

lemma env_at_attack:
  assumes "0.01 \<le> attackRatio g" "attackRatio g \<le> 0.9" "0.01 \<le> releaseRatio g" "releaseRatio g \<le> 0.9"
  shows "0.001 \<le> computeEnvelope (g\<lparr>envPhase := attackRatio g\<rparr>)"
    and "computeEnvelope (g\<lparr>envPhase := attackRatio g\<rparr>) \<le> 1"
proof -
  let ?a = "attackRatio g" and ?r = "releaseRatio g"
  let ?t = "(?a - (1 - ?r)) / ?r"
  let ?v = "computeEnvelope (g\<lparr>envPhase := ?a\<rparr>)"
  have rpos: "0 < ?r" using assms by simp
  have "0.001 \<le> ?v \<and> ?v \<le> 1"
  proof (cases "?a < 1 - ?r")
    case True
    then have "?v = 1" using assms by (simp add: computeEnvelope_def Let_def)
    then show ?thesis by simp
  next
    case False
    then have t0: "0 \<le> ?t" using rpos by simp
    have t1: "?t \<le> 1" using rpos assms by (simp add: field_simps)
    have u: "1 - ?t = (1 - ?a) / ?r" using rpos by (simp add: field_simps)
    have "1 / 9 \<le> (1 - ?a) / ?r"
    proof -
      have "?r \<le> 9 * (1 - ?a)" using assms by simp
      then show ?thesis using rpos by (simp add: field_simps)
    qed
    with u have lo: "1 / 9 \<le> 1 - ?t" by simp
    have hi: "1 - ?t \<le> 1" using t0 by simp
    have v: "?v = (if exponentialEnv g then (1 - ?t) * (1 - ?t) else 1 - ?t)"
      using False assms t1 by (simp add: computeEnvelope_def Let_def min_def)
    show ?thesis
    proof (cases "exponentialEnv g")
      case True
      have nn: "0 \<le> 1 - ?t" using lo by linarith
      have small: "(0.001::real) \<le> 1 / 9 * (1 / 9)" by simp
      have "1 / 9 * (1 / 9) \<le> (1 - ?t) * (1 - ?t)"
        by (rule mult_mono [OF lo lo nn]) simp
      with small have lo2: "0.001 \<le> (1 - ?t) * (1 - ?t)" by (rule order_trans)
      have "(1 - ?t) * (1 - ?t) \<le> 1 * 1"
        by (rule mult_mono [OF hi hi _ nn]) simp
      then have hi2: "(1 - ?t) * (1 - ?t) \<le> 1" by simp
      have veq: "?v = (1 - ?t) * (1 - ?t)" using v True by simp
      show ?thesis by (simp only: veq) (rule conjI [OF lo2 hi2])
    next
      case False
      then have veq: "?v = 1 - ?t" using v by simp
      have small: "(0.001::real) \<le> 1 / 9" by simp
      from small lo have lo2: "0.001 \<le> 1 - ?t" by (rule order_trans)
      show ?thesis by (simp only: veq) (rule conjI [OF lo2 hi])
    qed
  qed
  then show "0.001 \<le> ?v" and "?v \<le> 1" by simp_all
qed

lemma env_at_release_start:
  assumes "0.01 \<le> attackRatio g" "0.01 \<le> releaseRatio g" "attackRatio g + releaseRatio g \<le> 1"
  shows "computeEnvelope (g\<lparr>envPhase := 1 - releaseRatio g\<rparr>) = 1"
  using assms by (simp add: computeEnvelope_def Let_def)

lemma env_at_one:
  assumes "attackRatio g \<le> 0.9" "0.01 \<le> releaseRatio g" "releaseRatio g \<le> 0.9"
  shows "computeEnvelope (g\<lparr>envPhase := 1\<rparr>) = 0"
  using assms by (simp add: computeEnvelope_def Let_def)

lemma env_no_sustain:
  assumes "attackRatio g \<le> 0.9" "0.01 \<le> releaseRatio g" "releaseRatio g \<le> 0.9"
    and "1 < attackRatio g + releaseRatio g"
  shows "computeEnvelope (g\<lparr>envPhase := p\<rparr>) =
     (if p < 0.01 then p / 0.01 * 0.001
      else if p < attackRatio g then
        (let t = (p - 0.01) / (attackRatio g - 0.01)
         in if exponentialEnv g then 0.001 + t * t * (1 - 0.001) else 0.001 + t * (1 - 0.001))
      else
        (let t = min 1 ((p - (1 - releaseRatio g)) / releaseRatio g)
         in if exponentialEnv g then (1 - t) * (1 - t) else 1 - t))"
  using assms by (simp add: computeEnvelope_def Let_def)

lemma env_left_limit:
  assumes "attackRatio g \<le> 0.9" "0.01 \<le> releaseRatio g" "releaseRatio g \<le> 0.9"
    and "1 < attackRatio g + releaseRatio g"
  shows "((\<lambda>p. computeEnvelope (g\<lparr>envPhase := p\<rparr>)) \<longlongrightarrow> 1) (at_left (attackRatio g))"
proof -
  let ?a = "attackRatio g"
  let ?F = "\<lambda>p. if exponentialEnv g
                 then 0.001 + (p - 0.01) / (?a - 0.01) * ((p - 0.01) / (?a - 0.01)) * (1 - 0.001)
                 else 0.001 + (p - 0.01) / (?a - 0.01) * (1 - 0.001)"
  have a: "0.01 < ?a" using assms by simp
  have "\<forall>\<^sub>F p in at_left ?a. p \<in> {0.01<..<?a}"
    using a by (rule eventually_at_left_real)
  then have ev: "\<forall>\<^sub>F p in at_left ?a. ?F p = computeEnvelope (g\<lparr>envPhase := p\<rparr>)"
  proof (rule eventually_mono)
    fix p assume "p \<in> {0.01<..<?a}"
    then show "?F p = computeEnvelope (g\<lparr>envPhase := p\<rparr>)"
      using assms by (simp add: env_no_sustain Let_def)
  qed
  have nz: "?a - 0.01 \<noteq> 0" using a by simp
  have lin: "((\<lambda>p. 0.001 + (p - 0.01) / (?a - 0.01) * (1 - 0.001)) \<longlongrightarrow>
               0.001 + (?a - 0.01) / (?a - 0.01) * (1 - 0.001)) (at_left ?a)"
    by (intro tendsto_intros nz)
  have quad: "((\<lambda>p. 0.001 + (p - 0.01) / (?a - 0.01) * ((p - 0.01) / (?a - 0.01)) * (1 - 0.001))
               \<longlongrightarrow> 0.001 + (?a - 0.01) / (?a - 0.01) * ((?a - 0.01) / (?a - 0.01))
                     * (1 - 0.001)) (at_left ?a)"
    by (intro tendsto_intros nz)
  have "(?F \<longlongrightarrow> ?F ?a) (at_left ?a)"
  proof (cases "exponentialEnv g")
    case True
    then show ?thesis using quad by (simp only: if_True)
  next
    case False
    then show ?thesis using lin by (simp only: if_False)
  qed
  moreover have "?F ?a = 1"
  proof -
    have one: "(?a - 0.01) / (?a - 0.01) = 1" using nz by simp
    show ?thesis by (simp only: one) simp
  qed
  ultimately have "(?F \<longlongrightarrow> 1) (at_left ?a)" by simp
  then show ?thesis using ev by (rule Lim_transform_eventually)
qed

lemma env_right_limit:
  assumes "attackRatio g \<le> 0.9" "0.01 \<le> releaseRatio g" "releaseRatio g \<le> 0.9"
    and "1 < attackRatio g + releaseRatio g"
  shows "((\<lambda>p. computeEnvelope (g\<lparr>envPhase := p\<rparr>)) \<longlongrightarrow>
            computeEnvelope (g\<lparr>envPhase := attackRatio g\<rparr>)) (at_right (attackRatio g))"
proof -
  let ?a = "attackRatio g" and ?r = "releaseRatio g"
  let ?F = "\<lambda>p. if exponentialEnv g
                 then (1 - (p - (1 - ?r)) / ?r) * (1 - (p - (1 - ?r)) / ?r)
                 else 1 - (p - (1 - ?r)) / ?r"
  have a: "?a < 1" and r: "0 < ?r" using assms by simp_all
  have inside: "?F p = computeEnvelope (g\<lparr>envPhase := p\<rparr>)" if "?a \<le> p" "p < 1" for p
  proof -
    have "(p - (1 - ?r)) / ?r \<le> 1" using that r by (simp add: field_simps)
    then show ?thesis using that assms by (simp add: env_no_sustain Let_def min_def)
  qed
  have "\<forall>\<^sub>F p in at_right ?a. p \<in> {?a<..<1}"
    using a by (rule eventually_at_right_real)
  then have ev: "\<forall>\<^sub>F p in at_right ?a. ?F p = computeEnvelope (g\<lparr>envPhase := p\<rparr>)"
    by (rule eventually_mono) (simp add: inside)
  have nz: "?r \<noteq> 0" using r by simp
  have lin: "((\<lambda>p. 1 - (p - (1 - ?r)) / ?r) \<longlongrightarrow> 1 - (?a - (1 - ?r)) / ?r) (at_right ?a)"
    by (intro tendsto_intros nz)
  have quad: "((\<lambda>p. (1 - (p - (1 - ?r)) / ?r) * (1 - (p - (1 - ?r)) / ?r)) \<longlongrightarrow>
               (1 - (?a - (1 - ?r)) / ?r) * (1 - (?a - (1 - ?r)) / ?r)) (at_right ?a)"
    by (intro tendsto_intros nz)
  have "(?F \<longlongrightarrow> ?F ?a) (at_right ?a)"
  proof (cases "exponentialEnv g")
    case True
    then show ?thesis using quad by (simp only: if_True)
  next
    case False
    then show ?thesis using lin by (simp only: if_False)
  qed
  moreover have "?F ?a = computeEnvelope (g\<lparr>envPhase := ?a\<rparr>)"
    using a by (intro inside) simp_all
  ultimately have "(?F \<longlongrightarrow> computeEnvelope (g\<lparr>envPhase := ?a\<rparr>)) (at_right ?a)" by simp
  then show ?thesis using ev by (rule Lim_transform_eventually)
qed

lemma env_at_attack_value:
  assumes "attackRatio g \<le> 0.9" "0.01 \<le> releaseRatio g" "releaseRatio g \<le> 0.9"
    and "1 < attackRatio g + releaseRatio g"
  shows "computeEnvelope (g\<lparr>envPhase := attackRatio g\<rparr>) =
           (if exponentialEnv g
            then (1 - attackRatio g) / releaseRatio g * ((1 - attackRatio g) / releaseRatio g)
            else (1 - attackRatio g) / releaseRatio g)"
    and "computeEnvelope (g\<lparr>envPhase := attackRatio g\<rparr>) < 1"
proof -
  let ?a = "attackRatio g" and ?r = "releaseRatio g"
  let ?u = "(1 - ?a) / ?r"
  have r: "0 < ?r" using assms by simp
  have t1: "(?a - (1 - ?r)) / ?r \<le> 1" using r assms by (simp add: field_simps)
  have u: "1 - (?a - (1 - ?r)) / ?r = ?u" using r by (simp add: field_simps)
  have "computeEnvelope (g\<lparr>envPhase := ?a\<rparr>) =
          (if exponentialEnv g then (1 - (?a - (1 - ?r)) / ?r) * (1 - (?a - (1 - ?r)) / ?r)
           else 1 - (?a - (1 - ?r)) / ?r)"
    using assms t1 by (simp add: env_no_sustain Let_def min_def)
  then show v: "computeEnvelope (g\<lparr>envPhase := ?a\<rparr>) = (if exponentialEnv g then ?u * ?u else ?u)"
    by (simp only: u)
  have u0: "0 \<le> ?u" using r assms by simp
  have u1: "?u < 1" using r assms by (simp add: field_simps)
  have "?u * ?u < 1 * 1" using u0 u1 by (intro mult_strict_mono') simp_all
  then show "computeEnvelope (g\<lparr>envPhase := ?a\<rparr>) < 1"
    using v u1 by (simp split: if_splits)
qed

text \<open>
  Claim C2, as the code has it. For a grain with attack and release ratios in
  \<open>[0.01, 0.9]\<close> and either envelope shape: \<open>env(0) = 0\<close>, \<open>env(attackRatio)\<close> lies in
  \<open>[0.001, 1]\<close> and \<open>env(1) \<le> 0.001\<close>; \<open>env(fadeRatio) \<le> 0.001\<close> holds when the attack
  ratio is above the fade ratio 0.01, and \<open>env(1 - releaseRatio) = 1\<close> holds when
  \<open>attackRatio + releaseRatio \<le> 1\<close>. Here \<open>env(x)\<close> is \<^verbatim>\<open>computeEnvelope\<close> of the grain
  at envelope phase \<open>x\<close>.
\<close>

theorem envelope_boundary_values:
  assumes "0.01 \<le> attackRatio g" and "attackRatio g \<le> 0.9"
    and "0.01 \<le> releaseRatio g" and "releaseRatio g \<le> 0.9"
  shows "computeEnvelope (g\<lparr>envPhase := 0\<rparr>) = 0 \<and>
         (0.01 < attackRatio g \<longrightarrow> computeEnvelope (g\<lparr>envPhase := 0.01\<rparr>) \<le> 0.001) \<and>
         0.001 \<le> computeEnvelope (g\<lparr>envPhase := attackRatio g\<rparr>) \<and>
         computeEnvelope (g\<lparr>envPhase := attackRatio g\<rparr>) \<le> 1 \<and>
         (attackRatio g + releaseRatio g \<le> 1 \<longrightarrow>
            computeEnvelope (g\<lparr>envPhase := 1 - releaseRatio g\<rparr>) = 1) \<and>
         computeEnvelope (g\<lparr>envPhase := 1\<rparr>) \<le> 0.001"
proof -
  have "computeEnvelope (g\<lparr>envPhase := 1\<rparr>) = 0"
    using assms by (intro env_at_one)
  then have one: "computeEnvelope (g\<lparr>envPhase := 1\<rparr>) \<le> 0.001" by simp
  have fade: "computeEnvelope (g\<lparr>envPhase := 0.01\<rparr>) \<le> 0.001" if "0.01 < attackRatio g"
    using env_at_fade [OF that] by simp
  show ?thesis
    using env_at_zero [of g] fade env_at_attack [OF assms] env_at_release_start [of g] assms one
    by blast
qed

theorem envelope_boundary_values_witness:
  "(0.01::real) \<le> attackRatio (envGrain (1/2) (1/2) True 0) \<and>
   attackRatio (envGrain (1/2) (1/2) True 0) \<le> 0.9 \<and>
   (0.01::real) \<le> releaseRatio (envGrain (1/2) (1/2) True 0) \<and>
   releaseRatio (envGrain (1/2) (1/2) True 0) \<le> 0.9 \<and>
   0.01 < attackRatio (envGrain (1/2) (1/2) True 0) \<and>
   attackRatio (envGrain (1/2) (1/2) True 0) + releaseRatio (envGrain (1/2) (1/2) True 0) \<le> 1 \<and>
   computeEnvelope ((envGrain (1/2) (1/2) True 0)\<lparr>envPhase := 0\<rparr>) = 0 \<and>
   computeEnvelope ((envGrain (1/2) (1/2) True 0)\<lparr>envPhase := 0.01\<rparr>) \<le> 0.001 \<and>
   0.001 \<le> computeEnvelope ((envGrain (1/2) (1/2) True 0)\<lparr>envPhase := 1/2\<rparr>) \<and>
   computeEnvelope ((envGrain (1/2) (1/2) True 0)\<lparr>envPhase := 1/2\<rparr>) \<le> 1 \<and>
   computeEnvelope ((envGrain (1/2) (1/2) True 0)\<lparr>envPhase := 1 - 1/2\<rparr>) = 1 \<and>
   computeEnvelope ((envGrain (1/2) (1/2) True 0)\<lparr>envPhase := 1\<rparr>) \<le> 0.001"
proof -
  let ?g = "envGrain (1/2) (1/2) True 0"
  have a: "attackRatio ?g = 1/2" and r: "releaseRatio ?g = 1/2"
    by (simp_all add: envGrain_def)
  have h: "0.01 \<le> attackRatio ?g" "attackRatio ?g \<le> 0.9"
    "0.01 \<le> releaseRatio ?g" "releaseRatio ?g \<le> 0.9"
    by (simp_all add: a r)
  from envelope_boundary_values [OF h] show ?thesis
    by (simp add: a r)
qed

text \<open>
  The boundary values of claim C2 fail at two inputs. With \<open>attackRatio = 0.01\<close> the phase
  \<open>fadeRatio = 0.01\<close> is already in the sustain branch, so \<open>env(fadeRatio) = 1\<close>; with
  \<open>attackRatio = releaseRatio = 0.9\<close> the phase \<open>1 - releaseRatio = 0.1\<close> is still in the
  attack branch, so \<open>env(1 - releaseRatio) = 227/2225\<close>.
\<close>

theorem envelope_boundary_values_counterexample:
  "\<not> computeEnvelope (envGrain (1/100) (1/2) False (1/100)) \<le> 1/1000 \<and>
   computeEnvelope (envGrain (9/10) (9/10) False (1 - 9/10)) \<noteq> 1"
  by (simp add: computeEnvelope_def envGrain_def Grain_zero_def Let_def)

text \<open>
  The envelope of a grain whose attack and release overlap. For attack and release ratios
  in \<open>[0.01, 0.9]\<close> with \<open>attackRatio + releaseRatio > 1\<close> the sustain branch is never
  taken: a phase below \<open>attackRatio\<close> (and not below 0.01) is in the attack, every other
  phase in the release. At \<open>phase = attackRatio\<close> the limit from the left is 1, while the
  value there, which is also the limit from the right, is
  \<open>(1 - attackRatio) / releaseRatio\<close> for the linear shape and the square of that for the
  quadratic shape, in both cases below 1.
\<close>

theorem envelope_attack_release_transition:
  assumes "0.01 \<le> attackRatio g" and "attackRatio g \<le> 0.9"
    and "0.01 \<le> releaseRatio g" and "releaseRatio g \<le> 0.9"
    and "1 < attackRatio g + releaseRatio g"
  shows "computeEnvelope (g\<lparr>envPhase := p\<rparr>) =
           (if p < 0.01 then p / 0.01 * 0.001
            else if p < attackRatio g then
              (let t = (p - 0.01) / (attackRatio g - 0.01)
               in if exponentialEnv g then 0.001 + t * t * (1 - 0.001)
                  else 0.001 + t * (1 - 0.001))
            else
              (let t = min 1 ((p - (1 - releaseRatio g)) / releaseRatio g)
               in if exponentialEnv g then (1 - t) * (1 - t) else 1 - t)) \<and>
         ((\<lambda>q. computeEnvelope (g\<lparr>envPhase := q\<rparr>)) \<longlongrightarrow> 1) (at_left (attackRatio g)) \<and>
         ((\<lambda>q. computeEnvelope (g\<lparr>envPhase := q\<rparr>)) \<longlongrightarrow>
            computeEnvelope (g\<lparr>envPhase := attackRatio g\<rparr>)) (at_right (attackRatio g)) \<and>
         computeEnvelope (g\<lparr>envPhase := attackRatio g\<rparr>) =
           (if exponentialEnv g
            then (1 - attackRatio g) / releaseRatio g * ((1 - attackRatio g) / releaseRatio g)
            else (1 - attackRatio g) / releaseRatio g) \<and>
         computeEnvelope (g\<lparr>envPhase := attackRatio g\<rparr>) < 1"
  using env_no_sustain [OF assms(2-5), of p] env_left_limit [OF assms(2-5)]
    env_right_limit [OF assms(2-5)] env_at_attack_value [OF assms(2-5)]
  by blast

theorem envelope_attack_release_transition_witness:
  "(0.01::real) \<le> attackRatio (envGrain (9/10) (9/10) False 0) \<and>
   attackRatio (envGrain (9/10) (9/10) False 0) \<le> 0.9 \<and>
   (0.01::real) \<le> releaseRatio (envGrain (9/10) (9/10) False 0) \<and>
   releaseRatio (envGrain (9/10) (9/10) False 0) \<le> 0.9 \<and>
   1 < attackRatio (envGrain (9/10) (9/10) False 0) + releaseRatio (envGrain (9/10) (9/10) False 0) \<and>
   ((\<lambda>q. computeEnvelope ((envGrain (9/10) (9/10) False 0)\<lparr>envPhase := q\<rparr>)) \<longlongrightarrow> 1)
      (at_left (9/10)) \<and>
   computeEnvelope ((envGrain (9/10) (9/10) False 0)\<lparr>envPhase := 9/10\<rparr>) = 1/9"
proof -
  let ?g = "envGrain (9/10) (9/10) False 0"
  have a: "attackRatio ?g = 9/10" and r: "releaseRatio ?g = 9/10"
    and x: "exponentialEnv ?g = False"
    by (simp_all add: envGrain_def)
  have h: "0.01 \<le> attackRatio ?g" "attackRatio ?g \<le> 0.9"
    "0.01 \<le> releaseRatio ?g" "releaseRatio ?g \<le> 0.9"
    "1 < attackRatio ?g + releaseRatio ?g"
    by (simp_all add: a r)
  from envelope_attack_release_transition [OF h, of 0] show ?thesis
    by (simp add: a r x)
qed

text \<open>
  Claim C5, evaluated on the code. For \<open>attackRatio = releaseRatio = 0.9\<close> and the linear
  shape the sustain region is empty, and the envelope, as a function of the phase, is not
  continuous at \<open>phase = attackRatio = 0.9\<close>: the attack ends at 1 and the release starts
  at \<open>1/9\<close>.
\<close>

theorem envelope_discontinuous_at_attack_end:
  "\<not> isCont (computeEnvelope \<circ> envGrain (9/10) (9/10) False) (9/10)"
proof
  let ?g = "envGrain (9/10) (9/10) False 0"
  let ?f = "computeEnvelope \<circ> envGrain (9/10) (9/10) False"
  have f: "?f = (\<lambda>p. computeEnvelope (?g\<lparr>envPhase := p\<rparr>))"
    by (rule ext) (simp add: envGrain_def Grain_zero_def)
  have a: "attackRatio ?g = 9/10" by (simp add: envGrain_def)
  assume "isCont ?f (9/10)"
  then have "(?f \<longlongrightarrow> ?f (9/10)) (at (9/10))" by (simp add: isCont_def)
  then have "(?f \<longlongrightarrow> ?f (9/10)) (at_left (9/10))"
    by (rule filterlim_mono [OF _ order_refl]) (simp add: at_le)
  moreover have "(?f \<longlongrightarrow> 1) (at_left (9/10))"
    using env_left_limit [of ?g] by (simp add: f a) (simp add: envGrain_def Grain_zero_def)
  ultimately have "?f (9/10) = 1"
    by (intro tendsto_unique [of "at_left (9/10 :: real)"]) simp_all
  then show False
    by (simp add: computeEnvelope_def envGrain_def Grain_zero_def Let_def)
qed

section \<open>Slot choice\<close>















section \<open>Spawn, pan law and the scheduling loop\<close>



lemma emitGrainEvent_frame:
  assumes "emitGrainEvent e g = Inr e'"
  shows "params e' = params e" "nextGrainTime e' = nextGrainTime e"
    "sampleRate e' = sampleRate e" "invSampleRate e' = invSampleRate e"
    "currentTime e' = currentTime e" "currentLfoValue e' = currentLfoValue e"
    "grainSizeSmoother e' = grainSizeSmoother e" "grainEventCount e \<le> grainEventCount e'"
    "length (grains e') = length (grains e)"
  using assms by (auto simp: emitGrainEvent_def split: if_splits)

lemma spawnGrain_emit:
  assumes "spawnGrain e = Inr e'"
  shows "e' = e \<or>
         (\<exists>g rng. emitGrainEvent
                     (e\<lparr>grains := (grains e)[nat (chooseSlot (grains e)) := g], rngState := rng\<rparr>) g
                   = Inr e')"
  using assms
  by (auto simp: spawnGrain_def Let_def split_def split: sum.splits if_splits)

lemma spawnGrain_frame:
  assumes "spawnGrain e = Inr e'"
  shows "params e' = params e" "nextGrainTime e' = nextGrainTime e"
    "sampleRate e' = sampleRate e" "invSampleRate e' = invSampleRate e"
    "currentTime e' = currentTime e" "currentLfoValue e' = currentLfoValue e"
    "grainSizeSmoother e' = grainSizeSmoother e" "grainEventCount e \<le> grainEventCount e'"
    "length (grains e') = length (grains e)"
proof -
  from spawnGrain_emit [OF assms]
  have "params e' = params e \<and> nextGrainTime e' = nextGrainTime e \<and>
    sampleRate e' = sampleRate e \<and> invSampleRate e' = invSampleRate e \<and>
    currentTime e' = currentTime e \<and> currentLfoValue e' = currentLfoValue e \<and>
    grainSizeSmoother e' = grainSizeSmoother e \<and> grainEventCount e \<le> grainEventCount e' \<and>
    length (grains e') = length (grains e)"
  proof
    assume "e' = e"
    then show ?thesis by simp
  next
    assume "\<exists>g rng. emitGrainEvent
                     (e\<lparr>grains := (grains e)[nat (chooseSlot (grains e)) := g], rngState := rng\<rparr>) g
                   = Inr e'"
    then obtain g rng where "emitGrainEvent
                     (e\<lparr>grains := (grains e)[nat (chooseSlot (grains e)) := g], rngState := rng\<rparr>) g
                   = Inr e'" by blast
    from emitGrainEvent_frame [OF this] show ?thesis by simp
  qed
  then show "params e' = params e" "nextGrainTime e' = nextGrainTime e"
    "sampleRate e' = sampleRate e" "invSampleRate e' = invSampleRate e"
    "currentTime e' = currentTime e" "currentLfoValue e' = currentLfoValue e"
    "grainSizeSmoother e' = grainSizeSmoother e" "grainEventCount e \<le> grainEventCount e'"
    "length (grains e') = length (grains e)"
    by simp_all
qed

lemma emitGrainEvent_returns:
  assumes "0 \<le> grainEventCount e"
  shows "\<exists>e'. emitGrainEvent e g = Inr e'"
  using assms by (simp add: emitGrainEvent_def)

lemma spawnGrain_returns:
  assumes "grainTotalSamples
             (max 0.01 (getModulated e (current (grainSizeSmoother e)) LFO_GRAIN_SIZE
                          ModScales_grainSize 0.01 0.5)) (sampleRate e) = Inr ts"
    and "fmModulation e
             (getModulated e (fmFreq (params e)) LFO_FM_FREQ ModScales_fmFreq 0 1000)
             (getModulated e (fmAmount (params e)) LFO_FM_AMOUNT ModScales_fmAmount 0 100) = Inr fm"
    and "0 \<le> grainEventCount e"
  shows "\<exists>e'. spawnGrain e = Inr e'"
  using assms by (simp add: spawnGrain_def Let_def split_def emitGrainEvent_def)

lemma scheduleGrains_diverges:
  assumes step: "\<And>e. J e \<Longrightarrow> fval_less (nextGrainTime e) b \<and>
                    (\<exists>e'. spawnGrain e = Inr e' \<and> J (advanceNextGrainTime e'))"
    and start: "J e0"
  shows "scheduleGrains e0 b = None"
proof (rule ccontr)
  assume "scheduleGrains e0 b \<noteq> None"
  then obtain y where y: "scheduleGrains e0 b = Some y" by auto
  have "b = b \<longrightarrow> \<not> J e0"
  proof (rule scheduleGrains.raw_induct [where P = "\<lambda>e b' y. b' = b \<longrightarrow> \<not> J e", OF _ y])
    fix f e b' y
    assume IH: "\<And>e b' y. f e b' = Some y \<Longrightarrow> b' = b \<longrightarrow> \<not> J e"
      and body: "(if fval_less (nextGrainTime e) b'
                  then if isl (spawnGrain e) then Some (Inl (projl (spawnGrain e)))
                       else f (advanceNextGrainTime (projr (spawnGrain e))) b'
                  else Some (Inr e)) = Some y"
    show "b' = b \<longrightarrow> \<not> J e"
    proof (intro impI notI)
      assume b': "b' = b" and J: "J e"
      from step [OF J] obtain e' where less: "fval_less (nextGrainTime e) b"
        and sp: "spawnGrain e = Inr e'" and J': "J (advanceNextGrainTime e')" by blast
      from body less sp b' have "f (advanceNextGrainTime e') b = Some y" by simp
      from IH [OF this] J' show False by simp
    qed
  qed
  with start show False by simp
qed

section \<open>Grain pool\<close>







section \<open>Spawned grains\<close>














section \<open>Scheduling without the density floor\<close>

lemma smoother_process_stationary:
  assumes "current s = target s"
  shows "smoother_process s = s"
  using assms by (simp add: smoother_process_def)

lemma advanceSmoothers_stationary:
  assumes "current (pitchSmoother e) = target (pitchSmoother e)"
    and "current (positionSmoother e) = target (positionSmoother e)"
    and "current (grainSizeSmoother e) = target (grainSizeSmoother e)"
    and "current (panSmoother e) = target (panSmoother e)"
    and "current (volumeSmoother e) = target (volumeSmoother e)"
  shows "(advanceSmoothers ^^ n) e = e"
proof -
  have "advanceSmoothers e = e"
    using assms by (simp add: advanceSmoothers_def smoother_process_stationary)
  then show ?thesis by (induction n) simp_all
qed

lemma prepareBlock_stationary:
  assumes "currentTime e = Fin t" and "\<not> isDrifting e"
    and "current (pitchSmoother e) = target (pitchSmoother e)"
    and "current (positionSmoother e) = target (positionSmoother e)"
    and "current (grainSizeSmoother e) = target (grainSizeSmoother e)"
    and "current (panSmoother e) = target (panSmoother e)"
    and "current (volumeSmoother e) = target (volumeSmoother e)"
  shows "prepareBlock e n = Inr (e\<lparr>currentLfoValue := getValue (lfo e) t\<rparr>)"
proof -
  let ?e1 = "e\<lparr>currentLfoValue := getValue (lfo e) t\<rparr>"
  have "(advanceSmoothers ^^ nat n) ?e1 = ?e1"
    using assms(3-7) by (intro advanceSmoothers_stationary) simp_all
  then show ?thesis using assms(1,2) by (simp add: prepareBlock_def Let_def)
qed

lemma advanceNextGrainTime_frame:
  "params (advanceNextGrainTime e) = params e"
  "sampleRate (advanceNextGrainTime e) = sampleRate e"
  "grainSizeSmoother (advanceNextGrainTime e) = grainSizeSmoother e"
  "grainEventCount (advanceNextGrainTime e) = grainEventCount e"
  "currentTime (advanceNextGrainTime e) = currentTime e"
  by (simp_all add: advanceNextGrainTime_def Let_def)

lemma density_zero_loop:
  assumes "fval_less (Fin 0) b"
    and "nextGrainTime e0 = Fin 0" and "params e0 = densityZeroParams"
    and "sampleRate e0 = 48000" and "current (grainSizeSmoother e0) = 1 / 10"
    and "0 \<le> grainEventCount e0"
  shows "scheduleGrains e0 b = None"
proof (rule scheduleGrains_diverges
    [where J = "\<lambda>e. nextGrainTime e = Fin 0 \<and> params e = densityZeroParams \<and>
                    sampleRate e = 48000 \<and> current (grainSizeSmoother e) = 1 / 10 \<and>
                    0 \<le> grainEventCount e"])
  show "nextGrainTime e0 = Fin 0 \<and> params e0 = densityZeroParams \<and>
        sampleRate e0 = 48000 \<and> current (grainSizeSmoother e0) = 1 / 10 \<and>
        0 \<le> grainEventCount e0"
    using assms(2-6) by blast
next
  fix e :: GrainEngine
  assume J: "nextGrainTime e = Fin 0 \<and> params e = densityZeroParams \<and>
             sampleRate e = 48000 \<and> current (grainSizeSmoother e) = 1 / 10 \<and>
             0 \<le> grainEventCount e"
  then have t: "nextGrainTime e = Fin 0" and p: "params e = densityZeroParams"
    and sr: "sampleRate e = 48000" and c: "current (grainSizeSmoother e) = 1 / 10"
    and n: "0 \<le> grainEventCount e" by blast+
  have less: "fval_less (nextGrainTime e) b" using assms(1) by (simp only: t)
  have "\<exists>e'. spawnGrain e = Inr e'"
  proof (rule spawnGrain_returns)
    show "grainTotalSamples
       (max 0.01 (getModulated e (current (grainSizeSmoother e)) LFO_GRAIN_SIZE
          ModScales_grainSize 0.01 0.5)) (sampleRate e) = Inr 4800"
      by (simp add: getModulated_def p sr c densityZeroParams_def EngineParams_default_def
          grainTotalSamples_def float_to_int_def INT32_MAX_def trunc_toward_zero_def)
    show "fmModulation e
       (getModulated e (fmFreq (params e)) LFO_FM_FREQ ModScales_fmFreq 0 1000)
       (getModulated e (fmAmount (params e)) LFO_FM_AMOUNT ModScales_fmAmount 0 100) = Inr 0"
      by (simp add: getModulated_def p densityZeroParams_def EngineParams_default_def
          fmModulation_def)
    show "0 \<le> grainEventCount e" by (rule n)
  qed
  then obtain e' where sp: "spawnGrain e = Inr e'" by blast
  note fr = spawnGrain_frame [OF sp]
  have p': "params e' = densityZeroParams" using fr(1) p by simp
  have t': "nextGrainTime (advanceNextGrainTime e') = Fin 0"
    by (simp add: advanceNextGrainTime_def Let_def getModulated_def p' fr(2) t
        densityZeroParams_def EngineParams_default_def)
  have c': "current (grainSizeSmoother (advanceNextGrainTime e')) = 1 / 10"
    by (simp only: advanceNextGrainTime_frame fr c)
  have n': "0 \<le> grainEventCount (advanceNextGrainTime e')"
    using n fr(8) by (simp only: advanceNextGrainTime_frame)
  have "nextGrainTime (advanceNextGrainTime e') = Fin 0 \<and>
        params (advanceNextGrainTime e') = densityZeroParams \<and>
        sampleRate (advanceNextGrainTime e') = 48000 \<and>
        current (grainSizeSmoother (advanceNextGrainTime e')) = 1 / 10 \<and>
        0 \<le> grainEventCount (advanceNextGrainTime e')"
    using t' p' sr fr(3) c' n' by (simp only: advanceNextGrainTime_frame)
  with less sp
  show "fval_less (nextGrainTime e) b \<and>
        (\<exists>e'. spawnGrain e = Inr e' \<and>
           (nextGrainTime (advanceNextGrainTime e') = Fin 0 \<and>
            params (advanceNextGrainTime e') = densityZeroParams \<and>
            sampleRate (advanceNextGrainTime e') = 48000 \<and>
            current (grainSizeSmoother (advanceNextGrainTime e')) = 1 / 10 \<and>
            0 \<le> grainEventCount (advanceNextGrainTime e')))"
    by blast
qed

lemma densityZeroEngine_fields:
  "isPlaying densityZeroEngine" "sampleBuffer densityZeroEngine = Some [0]"
  "sampleBufferLength densityZeroEngine = 1" "currentTime densityZeroEngine = Fin 0"
  "nextGrainTime densityZeroEngine = Fin 0" "invSampleRate densityZeroEngine = Fin (1 / 48000)"
  "params densityZeroEngine = densityZeroParams" "sampleRate densityZeroEngine = 48000"
  "\<not> isDrifting densityZeroEngine" "grainEventCount densityZeroEngine = 0"
  "current (grainSizeSmoother densityZeroEngine) = 1 / 10"
  by (simp_all add: densityZeroEngine_def start_def allocateSampleBuffer_def updateParams_def
      init_def GrainEngine_new_def densityZeroParams_def EngineParams_default_def
      setImmediate_def setTarget_def fval_recip_def)

lemma densityZeroEngine_stationary:
  "current (pitchSmoother densityZeroEngine) = target (pitchSmoother densityZeroEngine)"
  "current (positionSmoother densityZeroEngine) = target (positionSmoother densityZeroEngine)"
  "current (grainSizeSmoother densityZeroEngine) = target (grainSizeSmoother densityZeroEngine)"
  "current (panSmoother densityZeroEngine) = target (panSmoother densityZeroEngine)"
  "current (volumeSmoother densityZeroEngine) = target (volumeSmoother densityZeroEngine)"
  by (simp_all add: densityZeroEngine_def start_def allocateSampleBuffer_def updateParams_def
      init_def GrainEngine_new_def densityZeroParams_def EngineParams_default_def
      setImmediate_def setTarget_def fval_recip_def)

text \<open>
  Claim C1, evaluated on the code. With the density LFO target bit clear, \<^verbatim>\<open>getModulated\<close>
  returns the density parameter as it is, without the 5 ms floor: for a density of 0 the
  scheduling loop adds 0 to \<open>nextGrainTime\<close> at every iteration and never ends, so
  \<^verbatim>\<open>process\<close> does not return.
\<close>

theorem density_floor_missing_without_lfo:
  "lfoTargetMask (params densityZeroEngine) AND LFO_DENSITY = 0 \<and>
   getModulated densityZeroEngine (density (params densityZeroEngine)) LFO_DENSITY
     ModScales_density 0.005 10 = 0 \<and>
   process densityZeroEngine 128 = None"
proof -
  let ?E = densityZeroEngine
  note f = densityZeroEngine_fields
  have mask: "lfoTargetMask (params ?E) AND LFO_DENSITY = 0"
    by (simp add: f densityZeroParams_def EngineParams_default_def)
  have dens: "getModulated ?E (density (params ?E)) LFO_DENSITY ModScales_density 0.005 10 = 0"
    using mask by (simp add: getModulated_def f densityZeroParams_def)
  let ?E3 = "?E\<lparr>currentLfoValue := getValue (lfo ?E) 0\<rparr>"
  have prep: "prepareBlock ?E 128 = Inr ?E3"
    by (rule prepareBlock_stationary [OF f(4) f(9) densityZeroEngine_stationary])
  have loop: "scheduleGrains ?E3 (Fin (1 / 375)) = None"
    by (rule density_zero_loop) (simp_all add: f)
  have "process ?E 128 = None"
    by (simp add: process_def prep f Let_def loop)
  with mask dens show ?thesis by blast
qed

theorem density_floor_missing_without_lfo_witness:
  "process densityZeroEngine 128 = None"
  using density_floor_missing_without_lfo by blast

section \<open>Idle blocks and the sample rate\<close>







end
